theory Spec2Isabelle
  imports Complex_Main
begin

section \<open>JavaScript numbers\<close>

text \<open>
  Every numeric field of the simulation is a JavaScript \<^verbatim>\<open>number\<close>. The model keeps the
  three special values of that type apart from the finite ones, so that a division by
  zero, an \<^verbatim>\<open>Infinity * 0\<close> or a comparison with \<^verbatim>\<open>NaN\<close> gives what the program gives.
  Finite values are real numbers and finite arithmetic is exact: rounding, overflow and
  underflow of the 64-bit format are outside the model, and there is one zero, read as
  \<^verbatim>\<open>+0\<close> (every zero divisor of this program is the result of \<^verbatim>\<open>Math.sqrt\<close>, of a
  difference of two equal numbers or of a product with one of those, which are \<^verbatim>\<open>+0\<close>).
\<close>

datatype jsnum = Fin real | PInf | NInf | NaN

fun is_finite :: "jsnum \<Rightarrow> bool" where
  "is_finite (Fin a) = True"
| "is_finite PInf = False"
| "is_finite NInf = False"
| "is_finite NaN = False"

instantiation jsnum :: "{comm_monoid_add, minus, times, inverse, ord}"
begin

definition zero_jsnum :: jsnum where
  "zero_jsnum = Fin 0"

fun plus_jsnum :: "jsnum \<Rightarrow> jsnum \<Rightarrow> jsnum" where
  "plus_jsnum NaN b = NaN"
| "plus_jsnum a NaN = NaN"
| "plus_jsnum (Fin a) (Fin b) = Fin (a + b)"
| "plus_jsnum PInf NInf = NaN"
| "plus_jsnum NInf PInf = NaN"
| "plus_jsnum PInf b = PInf"
| "plus_jsnum a PInf = PInf"
| "plus_jsnum NInf b = NInf"
| "plus_jsnum a NInf = NInf"

fun minus_jsnum :: "jsnum \<Rightarrow> jsnum \<Rightarrow> jsnum" where
  "minus_jsnum NaN b = NaN"
| "minus_jsnum a NaN = NaN"
| "minus_jsnum (Fin a) (Fin b) = Fin (a - b)"
| "minus_jsnum PInf PInf = NaN"
| "minus_jsnum NInf NInf = NaN"
| "minus_jsnum PInf b = PInf"
| "minus_jsnum a PInf = NInf"
| "minus_jsnum NInf b = NInf"
| "minus_jsnum a NInf = PInf"

fun times_jsnum :: "jsnum \<Rightarrow> jsnum \<Rightarrow> jsnum" where
  "times_jsnum NaN b = NaN"
| "times_jsnum a NaN = NaN"
| "times_jsnum (Fin a) (Fin b) = Fin (a * b)"
| "times_jsnum (Fin a) PInf = (if a = 0 then NaN else if 0 < a then PInf else NInf)"
| "times_jsnum (Fin a) NInf = (if a = 0 then NaN else if 0 < a then NInf else PInf)"
| "times_jsnum PInf (Fin b) = (if b = 0 then NaN else if 0 < b then PInf else NInf)"
| "times_jsnum NInf (Fin b) = (if b = 0 then NaN else if 0 < b then NInf else PInf)"
| "times_jsnum PInf PInf = PInf"
| "times_jsnum PInf NInf = NInf"
| "times_jsnum NInf PInf = NInf"
| "times_jsnum NInf NInf = PInf"

fun divide_jsnum :: "jsnum \<Rightarrow> jsnum \<Rightarrow> jsnum" where
  "divide_jsnum NaN b = NaN"
| "divide_jsnum a NaN = NaN"
| "divide_jsnum (Fin a) (Fin b) =
     (if b = 0 then (if a = 0 then NaN else if 0 < a then PInf else NInf)
      else Fin (a / b))"
| "divide_jsnum (Fin a) PInf = Fin 0"
| "divide_jsnum (Fin a) NInf = Fin 0"
| "divide_jsnum PInf (Fin b) = (if 0 \<le> b then PInf else NInf)"
| "divide_jsnum NInf (Fin b) = (if 0 \<le> b then NInf else PInf)"
| "divide_jsnum a b = NaN"

fun inverse_jsnum :: "jsnum \<Rightarrow> jsnum" where
  "inverse_jsnum (Fin a) = (if a = 0 then PInf else Fin (1 / a))"
| "inverse_jsnum PInf = Fin 0"
| "inverse_jsnum NInf = Fin 0"
| "inverse_jsnum NaN = NaN"

fun less_jsnum :: "jsnum \<Rightarrow> jsnum \<Rightarrow> bool" where
  "less_jsnum NaN b = False"
| "less_jsnum a NaN = False"
| "less_jsnum (Fin a) (Fin b) = (a < b)"
| "less_jsnum a NInf = False"
| "less_jsnum PInf b = False"
| "less_jsnum NInf b = True"
| "less_jsnum a PInf = True"

fun less_eq_jsnum :: "jsnum \<Rightarrow> jsnum \<Rightarrow> bool" where
  "less_eq_jsnum NaN b = False"
| "less_eq_jsnum a NaN = False"
| "less_eq_jsnum (Fin a) (Fin b) = (a \<le> b)"
| "less_eq_jsnum NInf b = True"
| "less_eq_jsnum a PInf = True"
| "less_eq_jsnum a NInf = False"
| "less_eq_jsnum PInf b = False"

instance
proof (standard, goal_cases)
  case (1 u v w)
  show ?case
    by (cases u; cases v; cases w) simp_all
next
  case (2 u v)
  show ?case
    by (cases u; cases v) simp_all
next
  case (3 u)
  show ?case
    by (cases u) (simp_all add: zero_jsnum_def)
qed

end

text \<open>\<^verbatim>\<open>Math.sqrt\<close>, \<^verbatim>\<open>Math.cos\<close>, \<^verbatim>\<open>Math.sin\<close>, \<^verbatim>\<open>Math.atan2\<close> and \<^verbatim>\<open>Math.PI\<close>.\<close>

fun Math_sqrt :: "jsnum \<Rightarrow> jsnum" where
  "Math_sqrt (Fin a) = (if a < 0 then NaN else Fin (sqrt a))"
| "Math_sqrt PInf = PInf"
| "Math_sqrt NInf = NaN"
| "Math_sqrt NaN = NaN"

fun Math_cos :: "jsnum \<Rightarrow> jsnum" where
  "Math_cos (Fin a) = Fin (cos a)"
| "Math_cos a = NaN"

fun Math_sin :: "jsnum \<Rightarrow> jsnum" where
  "Math_sin (Fin a) = Fin (sin a)"
| "Math_sin a = NaN"

definition atan2r :: "real \<Rightarrow> real \<Rightarrow> real" where
  "atan2r b a =
     (if 0 < a then arctan (b / a)
      else if a < 0 then (if 0 \<le> b then arctan (b / a) + pi else arctan (b / a) - pi)
      else if 0 < b then pi / 2
      else if b < 0 then - (pi / 2)
      else 0)"

fun Math_atan2 :: "jsnum \<Rightarrow> jsnum \<Rightarrow> jsnum" where
  "Math_atan2 NaN a = NaN"
| "Math_atan2 b NaN = NaN"
| "Math_atan2 (Fin b) (Fin a) = Fin (atan2r b a)"
| "Math_atan2 (Fin b) PInf = Fin 0"
| "Math_atan2 (Fin b) NInf = (if 0 \<le> b then Fin pi else Fin (- pi))"
| "Math_atan2 PInf (Fin a) = Fin (pi / 2)"
| "Math_atan2 NInf (Fin a) = Fin (- (pi / 2))"
| "Math_atan2 PInf PInf = Fin (pi / 4)"
| "Math_atan2 NInf PInf = Fin (- (pi / 4))"
| "Math_atan2 PInf NInf = Fin (3 * pi / 4)"
| "Math_atan2 NInf NInf = Fin (- (3 * pi / 4))"

definition Math_PI :: jsnum where
  "Math_PI = Fin pi"

section \<open>Bodies\<close>

text \<open>
  The \<^verbatim>\<open>color\<close> field is a string: the literal \<^verbatim>\<open>'yellow'\<close> of the sun, or the template
  \<^verbatim>\<open>hsl(${h}, 100%, 50%)\<close> of a spawned body, kept here as its hue \<open>h\<close>.
\<close>

datatype color = Named string | Hsl jsnum

record body =
  x :: jsnum
  y :: jsnum
  vx :: jsnum
  vy :: jsnum
  mass :: jsnum
  radius :: jsnum
  color :: color
  isSun :: bool
  tail :: "(jsnum \<times> jsnum) list"

definition G :: jsnum where
  "G = Fin 100"

definition baseTimeStep :: jsnum where
  "baseTimeStep = Fin (2 / 100)"

definition tailLength :: nat where
  "tailLength = 100"

text \<open>\<^verbatim>\<open>xs.slice(-n)\<close> for a positive \<open>n\<close>: the last \<open>n\<close> elements, all of them when there are fewer.\<close>

definition slice_last :: "nat \<Rightarrow> 'a list \<Rightarrow> 'a list" where
  "slice_last n xs = drop (length xs - n) xs"

text \<open>The sun of the mount effect and of \<^verbatim>\<open>handleReset\<close>, for a viewport \<open>width\<close> by \<open>height\<close>.\<close>

definition sun :: "jsnum \<Rightarrow> jsnum \<Rightarrow> body" where
  "sun width height =
     \<lparr>x = width / Fin 2, y = height / Fin 2, vx = 0, vy = 0,
      mass = Fin 1000, radius = Fin 15, color = Named ''yellow'',
      isSun = True, tail = []\<rparr>"

section \<open>One frame of \<^verbatim>\<open>simulate\<close>\<close>

text \<open>
  The body of the \<^verbatim>\<open>forEach\<close> callback for one other body: the pull of \<open>otherBody\<close> on
  \<open>b\<close>, added to the running \<open>(ax, ay)\<close> when the two are farther apart than the sum of
  their radii.
\<close>

definition pull :: "body \<Rightarrow> body \<Rightarrow> jsnum \<times> jsnum \<Rightarrow> jsnum \<times> jsnum" where
  "pull b otherBody acc =
     (let dx = x otherBody - x b;
          dy = y otherBody - y b;
          distance = Math_sqrt (dx * dx + dy * dy)
      in if radius b + radius otherBody < distance
         then (let force = (G * mass b * mass otherBody) / (distance * distance)
               in (fst acc + force * dx / (distance * mass b),
                   snd acc + force * dy / (distance * mass b)))
         else acc)"

text \<open>
  The \<^verbatim>\<open>forEach\<close> loop over \<open>bodies\<close> for the body at index \<open>i\<close>. The test
  \<^verbatim>\<open>body === otherBody\<close> compares object identities; every element of the array is an
  object of its own (the sun literal, the literal of \<^verbatim>\<open>handleCanvasClick\<close>, or a spread
  copy made by the previous frame), so it holds exactly when the two indices are equal.
\<close>

definition acceleration :: "body list \<Rightarrow> nat \<Rightarrow> jsnum \<times> jsnum" where
  "acceleration bodies i =
     fold (\<lambda>j acc. if j = i then acc else pull (bodies ! i) (bodies ! j) acc)
       [0..<length bodies] (0, 0)"

text \<open>The \<^verbatim>\<open>map\<close> callback for the body at index \<open>i\<close> (always called with \<open>i < length bodies\<close>).\<close>

definition update_body :: "body list \<Rightarrow> jsnum \<Rightarrow> nat \<Rightarrow> body" where
  "update_body bodies timeScale i =
     (let b = bodies ! i in
      if isSun b then b\<lparr>tail := slice_last tailLength (tail b @ [(x b, y b)])\<rparr>
      else
        (let a = acceleration bodies i;
             newVx = vx b + fst a * baseTimeStep * timeScale;
             newVy = vy b + snd a * baseTimeStep * timeScale;
             newX = x b + newVx * baseTimeStep * timeScale;
             newY = y b + newVy * baseTimeStep * timeScale
         in b\<lparr>vx := newVx, vy := newVy, x := newX, y := newY,
              tail := slice_last tailLength (tail b @ [(newX, newY)])\<rparr>))"

definition simulate :: "body list \<Rightarrow> jsnum \<Rightarrow> body list" where
  "simulate bodies timeScale = map (update_body bodies timeScale) [0..<length bodies]"

section \<open>Spawning and resetting\<close>

text \<open>
  \<^verbatim>\<open>handleCanvasClick\<close> at the canvas point \<open>(cx, cy)\<close>; \<open>r1\<close>, \<open>r2\<close> and \<open>r3\<close> are the three
  results of \<^verbatim>\<open>Math.random()\<close>, in the order the object literal draws them.
\<close>

definition newBody :: "body \<Rightarrow> jsnum \<Rightarrow> jsnum \<Rightarrow> jsnum \<Rightarrow> jsnum \<Rightarrow> jsnum \<Rightarrow> body" where
  "newBody s cx cy r1 r2 r3 =
     (let dx = cx - x s;
          dy = cy - y s;
          distance = Math_sqrt (dx * dx + dy * dy);
          speed = Math_sqrt (G * mass s / distance) * Fin (8 / 10);
          angle = Math_atan2 dy dx + Math_PI / Fin 2
      in \<lparr>x = cx, y = cy,
          vx = speed * Math_cos angle, vy = speed * Math_sin angle,
          mass = Fin 1 + r1 * Fin 9, radius = Fin 3 + r2 * Fin 5,
          color = Hsl (r3 * Fin 360),
          isSun = False, tail = []\<rparr>)"

definition handleCanvasClick ::
  "body list \<Rightarrow> jsnum \<Rightarrow> jsnum \<Rightarrow> jsnum \<Rightarrow> jsnum \<Rightarrow> jsnum \<Rightarrow> body list" where
  "handleCanvasClick bodies cx cy r1 r2 r3 =
     (case find isSun bodies of
        None \<Rightarrow> bodies
      | Some s \<Rightarrow> bodies @ [newBody s cx cy r1 r2 r3])"

text \<open>
  The component's state (the four \<^verbatim>\<open>useState\<close> cells) and its handlers as functions on
  it. \<open>mount\<close> is the state once the effect on \<^verbatim>\<open>size\<close> has run for the first time; the
  render before it holds the empty collection. \<open>Frame\<close> is one animation frame, which
  calls \<^verbatim>\<open>simulate\<close> only while the simulation is running; \<open>Click\<close> is
  \<^verbatim>\<open>handleCanvasClick\<close> with its canvas point and random draws; \<open>Resize\<close> is the
  \<^verbatim>\<open>setSize\<close> of a drag, after which the effect on \<^verbatim>\<open>size\<close> installs a new sun;
  \<open>Toggle\<close> and \<open>SetTimeScale\<close> are the start button and the slider. Drawing on the
  canvas changes no state and is left out.
\<close>

record sim =
  bodies :: "body list"
  isRunning :: bool
  timeScale :: jsnum
  width :: jsnum
  height :: jsnum

definition mount :: "jsnum \<Rightarrow> jsnum \<Rightarrow> sim" where
  "mount w h = \<lparr>bodies = [sun w h], isRunning = False, timeScale = Fin 1, width = w, height = h\<rparr>"

definition handleReset :: "sim \<Rightarrow> sim" where
  "handleReset st =
     st\<lparr>bodies := [sun (width st) (height st)], isRunning := False, timeScale := Fin 1\<rparr>"

datatype event =
    Frame
  | Click jsnum jsnum jsnum jsnum jsnum
  | Reset
  | Resize jsnum jsnum
  | Toggle
  | SetTimeScale jsnum

fun handle :: "event \<Rightarrow> sim \<Rightarrow> sim" where
  "handle Frame st =
     (if isRunning st then st\<lparr>bodies := simulate (bodies st) (timeScale st)\<rparr> else st)"
| "handle (Click cx cy r1 r2 r3) st =
     st\<lparr>bodies := handleCanvasClick (bodies st) cx cy r1 r2 r3\<rparr>"
| "handle Reset st = handleReset st"
| "handle (Resize w h) st = st\<lparr>width := w, height := h, bodies := [sun w h]\<rparr>"
| "handle Toggle st = st\<lparr>isRunning := \<not> isRunning st\<rparr>"
| "handle (SetTimeScale v) st = st\<lparr>timeScale := v\<rparr>"

definition run :: "event list \<Rightarrow> sim \<Rightarrow> sim" where
  "run evs st = fold handle evs st"

text \<open>Several frames in a row, one time scale per frame, and the positions a body visits.\<close>

definition steps :: "jsnum list \<Rightarrow> body list \<Rightarrow> body list" where
  "steps tss bs = fold (\<lambda>ts st. simulate st ts) tss bs"

definition pos :: "body \<Rightarrow> jsnum \<times> jsnum" where
  "pos b = (x b, y b)"

definition visited :: "jsnum list \<Rightarrow> body list \<Rightarrow> nat \<Rightarrow> (jsnum \<times> jsnum) list" where
  "visited tss bs i = map (\<lambda>k. pos (steps (take (Suc k) tss) bs ! i)) [0..<length tss]"

section \<open>The force law and the seeded orbit, in the words of the specification\<close>

text \<open>
  These definitions follow the specification, not the source; the theorems below compare
  them with \<open>acceleration\<close> and \<open>newBody\<close>. The distance between the centres of two
  bodies:
\<close>

definition distance :: "body \<Rightarrow> body \<Rightarrow> jsnum" where
  "distance b otherBody =
     Math_sqrt ((x otherBody - x b) * (x otherBody - x b) + (y otherBody - y b) * (y otherBody - y b))"

text \<open>
  The contribution of \<open>otherBody\<close> to the acceleration of \<open>b\<close>:
  \<open>force_magnitude = G * mass_i * mass_j / distance^2\<close>, times
  \<open>(pos_j - pos_i) / (distance * mass_i)\<close> in each coordinate.
\<close>

definition force_magnitude :: "body \<Rightarrow> body \<Rightarrow> jsnum" where
  "force_magnitude b otherBody =
     G * mass b * mass otherBody / (distance b otherBody * distance b otherBody)"

definition contribution_x :: "body \<Rightarrow> body \<Rightarrow> jsnum" where
  "contribution_x b otherBody =
     force_magnitude b otherBody * ((x otherBody - x b) / (distance b otherBody * mass b))"

definition contribution_y :: "body \<Rightarrow> body \<Rightarrow> jsnum" where
  "contribution_y b otherBody =
     force_magnitude b otherBody * ((y otherBody - y b) / (distance b otherBody * mass b))"

text \<open>The indices of the bodies that attract the body at index \<open>i\<close>: the other bodies
  whose centre is farther from it than the sum of the two radii.\<close>

definition attracting :: "body list \<Rightarrow> nat \<Rightarrow> nat list" where
  "attracting bs i =
     filter (\<lambda>j. j \<noteq> i \<and> radius (bs ! i) + radius (bs ! j) < distance (bs ! i) (bs ! j))
       [0..<length bs]"

text \<open>
  The seeded orbit: the distance of the click from the sun, as a real number, and
  \<open>speed = sqrt(G * anchor.mass / distance) * 0.8\<close> with \<open>G = 100\<close>.
\<close>

definition radial_distance :: "real \<Rightarrow> real \<Rightarrow> real" where
  "radial_distance dx dy = sqrt (dx * dx + dy * dy)"

definition orbit_speed :: "real \<Rightarrow> real \<Rightarrow> real" where
  "orbit_speed M d = sqrt (100 * M / d) * (8 / 10)"

section \<open>The frame of \<^verbatim>\<open>simulate\<close>: what a step leaves alone\<close>

lemma jsnum_mult_assoc: "(a * b) * c = a * (b * (c::jsnum))"
  by (cases a; cases b; cases c)
     (auto simp: zero_less_mult_iff mult_less_0_iff not_less le_less)

lemma jsnum_times_divide: "(a * b) / c = a * (b / (c::jsnum))"
  by (cases a; cases b; cases c)
     (auto simp: zero_less_mult_iff mult_less_0_iff zero_less_divide_iff divide_less_0_iff
        not_less le_less)

lemma jsnum_le_not_less: "a \<le> b \<Longrightarrow> \<not> b < (a::jsnum)"
  by (cases a; cases b) simp_all

lemma length_simulate: "length (simulate bs ts) = length bs"
  by (simp add: simulate_def)

lemma simulate_nth: "i < length bs \<Longrightarrow> simulate bs ts ! i = update_body bs ts i"
  by (simp add: simulate_def)

lemma update_body_frame:
  "mass (update_body bs ts i) = mass (bs ! i)"
  "radius (update_body bs ts i) = radius (bs ! i)"
  "color (update_body bs ts i) = color (bs ! i)"
  "isSun (update_body bs ts i) = isSun (bs ! i)"
  by (simp_all add: update_body_def Let_def)

lemma update_body_sun:
  "isSun (bs ! i) \<Longrightarrow> update_body bs ts i =
     (bs ! i)\<lparr>tail := slice_last tailLength (tail (bs ! i) @ [(x (bs ! i), y (bs ! i))])\<rparr>"
  by (simp add: update_body_def Let_def)

lemma update_body_tail:
  "tail (update_body bs ts i) =
     slice_last tailLength (tail (bs ! i) @ [(x (update_body bs ts i), y (update_body bs ts i))])"
  by (simp add: update_body_def Let_def)

lemma map_isSun_simulate: "map isSun (simulate bs ts) = map isSun bs"
  by (rule nth_equalityI) (simp_all add: length_simulate simulate_nth update_body_frame)

lemma length_slice_last: "length (slice_last n xs) \<le> n"
  by (simp add: slice_last_def)

lemma slice_last_id: "length xs \<le> n \<Longrightarrow> slice_last n xs = xs"
  by (simp add: slice_last_def)

lemma slice_last_snoc: "slice_last n (slice_last n xs @ [p]) = slice_last n (xs @ [p])"
proof (cases "length xs \<le> n")
  case True
  then show ?thesis by (simp add: slice_last_def)
next
  case False
  then have "Suc (length xs) - (length xs - n + n) + (length xs - n) = Suc (length xs) - n"
    by arith
  then show ?thesis by (simp add: slice_last_def)
qed

text \<open>
  C2. In one frame a body flagged as the sun keeps its position, velocity, mass, radius,
  colour and flag, whatever the state and the time scale are. Its trail alone changes:
  the current position is appended once, and the last \<open>tailLength\<close> entries are kept.
\<close>

theorem anchor_invariance:
  assumes "i < length bs" and "isSun (bs ! i)"
  shows "x (simulate bs ts ! i) = x (bs ! i) \<and> y (simulate bs ts ! i) = y (bs ! i)
       \<and> vx (simulate bs ts ! i) = vx (bs ! i) \<and> vy (simulate bs ts ! i) = vy (bs ! i)
       \<and> mass (simulate bs ts ! i) = mass (bs ! i)
       \<and> radius (simulate bs ts ! i) = radius (bs ! i)
       \<and> color (simulate bs ts ! i) = color (bs ! i) \<and> isSun (simulate bs ts ! i)
       \<and> tail (simulate bs ts ! i) =
           slice_last tailLength (tail (bs ! i) @ [(x (bs ! i), y (bs ! i))])
       \<and> last (tail (simulate bs ts ! i)) = (x (bs ! i), y (bs ! i))
       \<and> length (tail (simulate bs ts ! i)) \<le> tailLength"
  using assms
  by (simp add: simulate_nth update_body_sun length_slice_last)
     (simp add: slice_last_def tailLength_def)

theorem anchor_invariance_witness:
  "x (simulate [sun (Fin 800) (Fin 600)] (Fin 1) ! 0) = Fin 400
 \<and> y (simulate [sun (Fin 800) (Fin 600)] (Fin 1) ! 0) = Fin 300
 \<and> vx (simulate [sun (Fin 800) (Fin 600)] (Fin 1) ! 0) = Fin 0
 \<and> vy (simulate [sun (Fin 800) (Fin 600)] (Fin 1) ! 0) = Fin 0
 \<and> tail (simulate [sun (Fin 800) (Fin 600)] (Fin 1) ! 0) = [(Fin 400, Fin 300)]"
  using anchor_invariance [of 0 "[sun (Fin 800) (Fin 600)]" "Fin 1"]
  by (simp add: sun_def slice_last_def zero_jsnum_def tailLength_def)

section \<open>Trails\<close>

lemma length_steps: "length (steps tss bs) = length bs"
  unfolding steps_def by (induction tss arbitrary: bs) (simp_all add: length_simulate)

lemma steps_snoc: "steps (tss @ [t]) bs = simulate (steps tss bs) t"
  by (simp add: steps_def)

lemma visited_snoc:
  "visited (tss @ [t]) bs i = visited tss bs i @ [pos (steps (tss @ [t]) bs ! i)]"
  by (simp add: visited_def)

lemma length_visited: "length (visited tss bs i) = length tss"
  by (simp add: visited_def)

lemma tail_steps:
  assumes "i < length bs" and "length (tail (bs ! i)) \<le> tailLength"
  shows "tail (steps tss bs ! i) = slice_last tailLength (tail (bs ! i) @ visited tss bs i)"
proof (induction tss rule: rev_induct)
  case Nil
  show ?case using assms by (simp add: steps_def visited_def slice_last_id)
next
  case (snoc t tss)
  have i: "i < length (steps tss bs)" using assms by (simp add: length_steps)
  have "tail (steps (tss @ [t]) bs ! i)
      = slice_last tailLength (tail (steps tss bs ! i) @ [pos (steps (tss @ [t]) bs ! i)])"
    using i by (simp add: steps_snoc simulate_nth pos_def update_body_tail[symmetric])
  also have "\<dots> = slice_last tailLength ((tail (bs ! i) @ visited tss bs i) @ [pos (steps (tss @ [t]) bs ! i)])"
    unfolding snoc.IH by (rule slice_last_snoc)
  finally show ?case by (simp add: visited_snoc)
qed

lemma tails_simulate: "b \<in> set (simulate bs ts) \<Longrightarrow> length (tail b) \<le> tailLength"
  by (auto simp: simulate_def update_body_tail length_slice_last)

lemma tails_click:
  "\<forall>b \<in> set bs. length (tail b) \<le> tailLength \<Longrightarrow>
   \<forall>b \<in> set (handleCanvasClick bs cx cy r1 r2 r3). length (tail b) \<le> tailLength"
  by (auto simp: handleCanvasClick_def newBody_def Let_def split: option.splits)

lemma tails_handle:
  "\<forall>b \<in> set (bodies st). length (tail b) \<le> tailLength \<Longrightarrow>
   \<forall>b \<in> set (bodies (handle ev st)). length (tail b) \<le> tailLength"
proof (cases ev)
  case Frame
  assume "\<forall>b \<in> set (bodies st). length (tail b) \<le> tailLength"
  then show ?thesis using Frame by (auto dest: tails_simulate)
next
  case (Click cx cy r1 r2 r3)
  assume "\<forall>b \<in> set (bodies st). length (tail b) \<le> tailLength"
  then show ?thesis using Click tails_click by simp
qed (simp_all add: handleReset_def sun_def)

lemma tails_run:
  "\<forall>b \<in> set (bodies st). length (tail b) \<le> tailLength \<Longrightarrow>
   \<forall>b \<in> set (bodies (run evs st)). length (tail b) \<le> tailLength"
  unfolding run_def
proof (induction evs arbitrary: st)
  case Nil
  then show ?case by simp
next
  case (Cons ev evs)
  show ?case using Cons.IH [OF tails_handle [OF Cons.prems]] by simp
qed

text \<open>
  C3. No trail is longer than \<open>tailLength\<close>: not in any state the component reaches
  from its mount, and not after a frame from any state at all. A body that starts with an
  empty trail has, after the frames \<open>tss\<close>, the last \<open>tailLength\<close> of the positions it
  visited, oldest first; once more than \<open>tailLength\<close> frames have run, that is exactly
  \<open>tailLength\<close> positions.
\<close>

theorem trail_bound:
  "(\<forall>b \<in> set (bodies (run evs (mount w h))). length (tail b) \<le> tailLength)
 \<and> (\<forall>b \<in> set (simulate bs ts). length (tail b) \<le> tailLength)
 \<and> (i < length bs \<and> tail (bs ! i) = [] \<longrightarrow>
      tail (steps tss bs ! i) = slice_last tailLength (visited tss bs i)
    \<and> length (tail (steps tss bs ! i)) = min (length tss) tailLength
    \<and> (tailLength < length tss \<longrightarrow>
         length (tail (steps tss bs ! i)) = tailLength
       \<and> tail (steps tss bs ! i) = drop (length tss - tailLength) (visited tss bs i)))
 \<and> tailLength = 100"
proof -
  have a: "\<forall>b \<in> set (bodies (run evs (mount w h))). length (tail b) \<le> tailLength"
    by (rule tails_run) (simp add: mount_def sun_def)
  have b: "\<forall>b \<in> set (simulate bs ts). length (tail b) \<le> tailLength"
    by (simp add: tails_simulate)
  have c: "tail (steps tss bs ! i) = slice_last tailLength (visited tss bs i)"
    if "i < length bs" "tail (bs ! i) = []"
    using tail_steps [of i bs tss] that by simp
  have d: "tailLength = 100"
    by (simp add: tailLength_def)
  show ?thesis using a b c
    by (auto simp: slice_last_def length_visited d)
qed

theorem trail_bound_witness:
  "tail ([sun (Fin 800) (Fin 600)] ! 0) = []
 \<and> tailLength < length (replicate 101 (Fin 1))
 \<and> length (tail (steps (replicate 101 (Fin 1)) [sun (Fin 800) (Fin 600)] ! 0)) = tailLength
 \<and> tail (steps (replicate 101 (Fin 1)) [sun (Fin 800) (Fin 600)] ! 0) =
       drop (length (replicate 101 (Fin 1) :: jsnum list) - tailLength)
         (visited (replicate 101 (Fin 1)) [sun (Fin 800) (Fin 600)] 0)"
proof -
  have pre: "0 < length [sun (Fin 800) (Fin 600)] \<and> tail ([sun (Fin 800) (Fin 600)] ! 0) = []"
    by (simp add: sun_def)
  have len: "tailLength < length (replicate 101 (Fin 1))"
    by (simp add: tailLength_def)
  from pre len
    trail_bound [of "[]" "Fin 800" "Fin 600" "[sun (Fin 800) (Fin 600)]" "Fin 1" 0
                    "replicate 101 (Fin 1)"]
  show ?thesis by blast
qed

section \<open>Suns, resets and spawns\<close>

lemma count_suns_simulate:
  "length (filter isSun (simulate bs ts)) = length (filter isSun bs)"
proof -
  have eq: "length (filter isSun zs) = length (filter id (map isSun zs))" for zs :: "body list"
    by (simp add: filter_map comp_def)
  have "length (filter isSun (simulate bs ts)) = length (filter id (map isSun (simulate bs ts)))"
    by (rule eq)
  also have "\<dots> = length (filter id (map isSun bs))"
    by (simp only: map_isSun_simulate)
  also have "\<dots> = length (filter isSun bs)"
    by (rule eq [symmetric])
  finally show ?thesis .
qed

lemma isSun_newBody: "\<not> isSun (newBody s cx cy r1 r2 r3)"
  by (simp add: newBody_def Let_def)

lemma count_suns_click:
  "length (filter isSun (handleCanvasClick bs cx cy r1 r2 r3)) = length (filter isSun bs)"
  by (simp add: handleCanvasClick_def isSun_newBody split: option.splits)

lemma count_suns_handle:
  "length (filter isSun (bodies st)) = 1 \<Longrightarrow> length (filter isSun (bodies (handle ev st))) = 1"
  by (cases ev) (simp_all add: count_suns_simulate count_suns_click handleReset_def sun_def)

lemma count_suns_run:
  "length (filter isSun (bodies st)) = 1 \<Longrightarrow> length (filter isSun (bodies (run evs st))) = 1"
  unfolding run_def
proof (induction evs arbitrary: st)
  case Nil
  then show ?case by simp
next
  case (Cons ev evs)
  show ?case using Cons.IH [OF count_suns_handle [OF Cons.prems]] by simp
qed

text \<open>
  C9. Every state the component reaches from its mount or from a reset, by any sequence
  of frames, clicks, resets, resizes and control changes, has exactly one body flagged as
  the sun: the mount and the reset create exactly one, a spawned body is never flagged,
  and a frame changes no flag.
\<close>

theorem one_sun:
  "length (filter isSun (bodies (run evs (mount w h)))) = 1
 \<and> length (filter isSun (bodies (run evs (handleReset st)))) = 1
 \<and> filter isSun (bodies (mount w h)) = [sun w h]
 \<and> filter isSun (bodies (handleReset st)) = [sun (width st) (height st)]
 \<and> \<not> isSun (newBody s cx cy r1 r2 r3)
 \<and> map isSun (simulate bs ts) = map isSun bs"
proof -
  have "length (filter isSun (bodies (run evs (mount w h)))) = 1"
    by (rule count_suns_run) (simp add: mount_def sun_def)
  moreover have "length (filter isSun (bodies (run evs (handleReset st)))) = 1"
    by (rule count_suns_run) (simp add: handleReset_def sun_def)
  ultimately show ?thesis
    by (simp add: isSun_newBody map_isSun_simulate) (simp add: mount_def handleReset_def sun_def)
qed

text \<open>
  C8. For every viewport, the mount effect, a resize and \<^verbatim>\<open>handleReset\<close> replace the whole
  collection by one body: the sun at \<open>(width / 2, height / 2)\<close>, at rest, with an empty
  trail. \<^verbatim>\<open>handleReset\<close> has no failing branch; it keeps the viewport.
\<close>

theorem reset_single_sun:
  "bodies (handleReset st) =
     [\<lparr>x = width st / Fin 2, y = height st / Fin 2, vx = Fin 0, vy = Fin 0,
       mass = Fin 1000, radius = Fin 15, color = Named ''yellow'', isSun = True, tail = []\<rparr>]
 \<and> bodies (mount w h) =
     [\<lparr>x = w / Fin 2, y = h / Fin 2, vx = Fin 0, vy = Fin 0,
       mass = Fin 1000, radius = Fin 15, color = Named ''yellow'', isSun = True, tail = []\<rparr>]
 \<and> bodies (handle (Resize w h) st) = bodies (mount w h)
 \<and> width (handleReset st) = width st \<and> height (handleReset st) = height st
 \<and> Fin a / Fin 2 = Fin (a / 2)"
  by (simp add: handleReset_def mount_def sun_def zero_jsnum_def)

text \<open>
  C10, as amended. A frame keeps the number and the order of the bodies and, for each
  body, its mass, radius, colour and flag. A click, when some body is flagged as the
  sun, appends exactly one body at the end and leaves the others as they are; when no
  body is flagged, it returns the collection unchanged.
\<close>

theorem frame_and_spawn:
  "length (simulate bs ts) = length bs
 \<and> (\<forall>i<length bs. simulate bs ts ! i = update_body bs ts i
                   \<and> mass (simulate bs ts ! i) = mass (bs ! i)
                   \<and> radius (simulate bs ts ! i) = radius (bs ! i)
                   \<and> color (simulate bs ts ! i) = color (bs ! i)
                   \<and> isSun (simulate bs ts ! i) = isSun (bs ! i))
 \<and> (find isSun bs = Some s \<longrightarrow>
       handleCanvasClick bs cx cy r1 r2 r3 = bs @ [newBody s cx cy r1 r2 r3])
 \<and> (find isSun bs = None \<longrightarrow> handleCanvasClick bs cx cy r1 r2 r3 = bs)
 \<and> ((find isSun bs = None) = (\<forall>b \<in> set bs. \<not> isSun b))"
proof -
  have f1: "\<forall>i<length bs. simulate bs ts ! i = update_body bs ts i
                   \<and> mass (simulate bs ts ! i) = mass (bs ! i)
                   \<and> radius (simulate bs ts ! i) = radius (bs ! i)
                   \<and> color (simulate bs ts ! i) = color (bs ! i)
                   \<and> isSun (simulate bs ts ! i) = isSun (bs ! i)"
    by (simp add: simulate_nth update_body_frame)
  have f2: "find isSun bs = Some s \<longrightarrow>
       handleCanvasClick bs cx cy r1 r2 r3 = bs @ [newBody s cx cy r1 r2 r3]"
    by (simp add: handleCanvasClick_def)
  have f3: "find isSun bs = None \<longrightarrow> handleCanvasClick bs cx cy r1 r2 r3 = bs"
    by (simp add: handleCanvasClick_def)
  have f4: "(find isSun bs = None) = (\<forall>b \<in> set bs. \<not> isSun b)"
    by (auto simp: find_None_iff)
  from length_simulate [of bs ts] f1 f2 f3 f4 show ?thesis by blast
qed

theorem frame_and_spawn_witness:
  "find isSun [sun (Fin 800) (Fin 600)] = Some (sun (Fin 800) (Fin 600))
 \<and> handleCanvasClick [sun (Fin 800) (Fin 600)] (Fin 500) (Fin 300) (Fin 0) (Fin 0) (Fin 0)
     = [sun (Fin 800) (Fin 600),
        newBody (sun (Fin 800) (Fin 600)) (Fin 500) (Fin 300) (Fin 0) (Fin 0) (Fin 0)]
 \<and> mass (simulate [sun (Fin 800) (Fin 600)] (Fin 1) ! 0) = Fin 1000"
proof -
  have f: "find isSun [sun (Fin 800) (Fin 600)] = Some (sun (Fin 800) (Fin 600))"
    by (simp add: sun_def)
  have m: "mass ([sun (Fin 800) (Fin 600)] ! 0) = Fin 1000"
    by (simp add: sun_def)
  from f m
    frame_and_spawn [of "[sun (Fin 800) (Fin 600)]" "Fin 1" "sun (Fin 800) (Fin 600)"
                        "Fin 500" "Fin 300" "Fin 0" "Fin 0" "Fin 0"]
  show ?thesis by (simp add: update_body_frame)
qed

text \<open>
  C10 as stated fails where no body is flagged as the sun, as in the empty collection of
  the first render: the click returns before it builds a body.
\<close>

theorem spawn_without_sun:
  "handleCanvasClick [] (Fin 500) (Fin 300) (Fin 0) (Fin 0) (Fin 0) = []
 \<and> length (handleCanvasClick [] (Fin 500) (Fin 300) (Fin 0) (Fin 0) (Fin 0)) \<noteq> length ([] :: body list) + 1"
  by (simp add: handleCanvasClick_def)

text \<open>
  C1. A click exactly on the sun of an 800 by 600 viewport is not rejected: the
  collection grows to two bodies, and neither velocity component of the new one is
  finite.
\<close>

theorem spawn_on_sun:
  "length (handleCanvasClick [sun (Fin 800) (Fin 600)] (Fin 400) (Fin 300) (Fin 0) (Fin 0) (Fin 0)) = 2
 \<and> handleCanvasClick [sun (Fin 800) (Fin 600)] (Fin 400) (Fin 300) (Fin 0) (Fin 0) (Fin 0)
      \<noteq> [sun (Fin 800) (Fin 600)]
 \<and> \<not> is_finite (vx (last (handleCanvasClick [sun (Fin 800) (Fin 600)] (Fin 400) (Fin 300) (Fin 0) (Fin 0) (Fin 0))))
 \<and> \<not> is_finite (vy (last (handleCanvasClick [sun (Fin 800) (Fin 600)] (Fin 400) (Fin 300) (Fin 0) (Fin 0) (Fin 0))))"
  by (simp add: handleCanvasClick_def sun_def newBody_def Let_def G_def Math_PI_def atan2r_def)

section \<open>The force loop\<close>

lemma pull_near: "\<not> radius b + radius ob < distance b ob \<Longrightarrow> pull b ob acc = acc"
  by (simp add: pull_def distance_def Let_def)

text \<open>
  A pair whose centres are no farther apart than the sum of the two radii leaves the
  running acceleration as it is. Whether the sum over the other pairs is a finite double
  is a matter of overflow and underflow of the 64-bit format, which this model of numbers
  leaves out; no finiteness result is stated for the loop.
\<close>

lemma pull_within_contact:
  "distance b ob \<le> radius b + radius ob \<Longrightarrow> pull b ob acc = acc"
  by (simp add: pull_near jsnum_le_not_less)

lemma pull_far:
  "radius b + radius ob < distance b ob \<Longrightarrow>
   pull b ob acc = (fst acc + contribution_x b ob, snd acc + contribution_y b ob)"
  by (simp add: pull_def distance_def Let_def contribution_x_def contribution_y_def
        force_magnitude_def jsnum_times_divide)

lemma fold_pull:
  "fold (\<lambda>j acc. if j = i then acc else pull (bs ! i) (bs ! j) acc) js acc =
     (fst acc + sum_list (map (\<lambda>j. contribution_x (bs ! i) (bs ! j))
        (filter (\<lambda>j. j \<noteq> i \<and> radius (bs ! i) + radius (bs ! j) < distance (bs ! i) (bs ! j)) js)),
      snd acc + sum_list (map (\<lambda>j. contribution_y (bs ! i) (bs ! j))
        (filter (\<lambda>j. j \<noteq> i \<and> radius (bs ! i) + radius (bs ! j) < distance (bs ! i) (bs ! j)) js)))"
proof (induction js arbitrary: acc)
  case Nil
  show ?case by simp
next
  case (Cons j js)
  show ?case
    by (cases "j = i"; cases "radius (bs ! i) + radius (bs ! j) < distance (bs ! i) (bs ! j)")
       (simp_all add: Cons.IH pull_far pull_near add.assoc)
qed

lemma sqrt_10000: "sqrt 10000 = 100"
  by (rule real_sqrt_unique) simp_all

lemma upt_2: "[0..<2] = [0, Suc 0]"
  by (simp add: numeral_2_eq_2)

lemma acceleration_two_bodies:
  "acceleration
     [sun (Fin 800) (Fin 600),
      \<lparr>x = Fin 500, y = Fin 300, vx = Fin 0, vy = Fin 0, mass = Fin 2, radius = Fin 3,
       color = Hsl (Fin 0), isSun = False, tail = []\<rparr>] (Suc 0) = (Fin (- 10), Fin 0)"
  by (simp add: acceleration_def upt_2 pull_def sun_def Let_def sqrt_10000 G_def zero_jsnum_def)

text \<open>
  C5. The acceleration accumulated for the body at index \<open>i\<close> is the sum, over the
  other bodies \<open>j\<close> whose distance from it exceeds the sum of the two radii, of
  \<open>G * mass_i * mass_j / d^2\<close> times \<open>(pos_j - pos_i) / (d * mass_i)\<close> in each
  coordinate, with \<open>G = 100\<close>; the index \<open>i\<close> itself is never among them.
\<close>

theorem force_law:
  "acceleration bs i =
     (sum_list (map (\<lambda>j. contribution_x (bs ! i) (bs ! j)) (attracting bs i)),
      sum_list (map (\<lambda>j. contribution_y (bs ! i) (bs ! j)) (attracting bs i)))
 \<and> i \<notin> set (attracting bs i)
 \<and> set (attracting bs i) =
     {j. j < length bs \<and> j \<noteq> i \<and> radius (bs ! i) + radius (bs ! j) < distance (bs ! i) (bs ! j)}
 \<and> G = Fin 100"
  by (auto simp: acceleration_def attracting_def fold_pull G_def)

theorem force_law_witness:
  "attracting
     [sun (Fin 800) (Fin 600),
      \<lparr>x = Fin 500, y = Fin 300, vx = Fin 0, vy = Fin 0, mass = Fin 2, radius = Fin 3,
       color = Hsl (Fin 0), isSun = False, tail = []\<rparr>] 1 = [0]
 \<and> acceleration
     [sun (Fin 800) (Fin 600),
      \<lparr>x = Fin 500, y = Fin 300, vx = Fin 0, vy = Fin 0, mass = Fin 2, radius = Fin 3,
       color = Hsl (Fin 0), isSun = False, tail = []\<rparr>] 1
     = (contribution_x
          \<lparr>x = Fin 500, y = Fin 300, vx = Fin 0, vy = Fin 0, mass = Fin 2, radius = Fin 3,
           color = Hsl (Fin 0), isSun = False, tail = []\<rparr> (sun (Fin 800) (Fin 600)),
        contribution_y
          \<lparr>x = Fin 500, y = Fin 300, vx = Fin 0, vy = Fin 0, mass = Fin 2, radius = Fin 3,
           color = Hsl (Fin 0), isSun = False, tail = []\<rparr> (sun (Fin 800) (Fin 600)))
 \<and> contribution_x
          \<lparr>x = Fin 500, y = Fin 300, vx = Fin 0, vy = Fin 0, mass = Fin 2, radius = Fin 3,
           color = Hsl (Fin 0), isSun = False, tail = []\<rparr> (sun (Fin 800) (Fin 600)) = Fin (- 10)"
proof -
  have att: "attracting
     [sun (Fin 800) (Fin 600),
      \<lparr>x = Fin 500, y = Fin 300, vx = Fin 0, vy = Fin 0, mass = Fin 2, radius = Fin 3,
       color = Hsl (Fin 0), isSun = False, tail = []\<rparr>] 1 = [0]"
    by (simp add: attracting_def upt_2 distance_def sun_def sqrt_10000)
  have cx: "contribution_x
          \<lparr>x = Fin 500, y = Fin 300, vx = Fin 0, vy = Fin 0, mass = Fin 2, radius = Fin 3,
           color = Hsl (Fin 0), isSun = False, tail = []\<rparr> (sun (Fin 800) (Fin 600)) = Fin (- 10)"
    by (simp add: contribution_x_def force_magnitude_def distance_def sun_def sqrt_10000 G_def)
  from force_law [of "[sun (Fin 800) (Fin 600),
      \<lparr>x = Fin 500, y = Fin 300, vx = Fin 0, vy = Fin 0, mass = Fin 2, radius = Fin 3,
       color = Hsl (Fin 0), isSun = False, tail = []\<rparr>]" 1] att cx
  show ?thesis by simp
qed

text \<open>
  C6. A body that is not the sun gets the velocity \<open>v + a * dt\<close> and the position
  \<open>p + v' * dt\<close>, where \<open>dt = baseTimeStep * timeScale\<close>, \<open>baseTimeStep = 0.02\<close> and
  \<open>v'\<close> is the velocity just computed.
\<close>

theorem semi_implicit_euler:
  assumes "i < length bs" and "\<not> isSun (bs ! i)"
  shows "vx (simulate bs ts ! i) = vx (bs ! i) + fst (acceleration bs i) * (baseTimeStep * ts)
       \<and> vy (simulate bs ts ! i) = vy (bs ! i) + snd (acceleration bs i) * (baseTimeStep * ts)
       \<and> x (simulate bs ts ! i) = x (bs ! i) + vx (simulate bs ts ! i) * (baseTimeStep * ts)
       \<and> y (simulate bs ts ! i) = y (bs ! i) + vy (simulate bs ts ! i) * (baseTimeStep * ts)
       \<and> baseTimeStep = Fin (2 / 100)"
  using assms
  by (simp add: simulate_nth update_body_def Let_def jsnum_mult_assoc baseTimeStep_def)

theorem semi_implicit_euler_witness:
  "vx (simulate
     [sun (Fin 800) (Fin 600),
      \<lparr>x = Fin 500, y = Fin 300, vx = Fin 0, vy = Fin 0, mass = Fin 2, radius = Fin 3,
       color = Hsl (Fin 0), isSun = False, tail = []\<rparr>] (Fin 1) ! 1) = Fin (- (2 / 10))
 \<and> x (simulate
     [sun (Fin 800) (Fin 600),
      \<lparr>x = Fin 500, y = Fin 300, vx = Fin 0, vy = Fin 0, mass = Fin 2, radius = Fin 3,
       color = Hsl (Fin 0), isSun = False, tail = []\<rparr>] (Fin 1) ! 1) = Fin (499996 / 1000)"
  using semi_implicit_euler [of 1 "[sun (Fin 800) (Fin 600),
      \<lparr>x = Fin 500, y = Fin 300, vx = Fin 0, vy = Fin 0, mass = Fin 2, radius = Fin 3,
       color = Hsl (Fin 0), isSun = False, tail = []\<rparr>]" "Fin 1"]
  by (simp add: acceleration_two_bodies baseTimeStep_def)

section \<open>The seeded orbit\<close>

lemma sqrt_sum_squares_pos: "(a, b) \<noteq> (0, 0 :: real) \<Longrightarrow> 0 < sqrt (a * a + b * b)"
  using sum_squares_gt_zero_iff [of a b] by (auto simp: power2_eq_square)

lemma sqrt_one_plus_ratio:
  assumes "a \<noteq> (0::real)"
  shows "sqrt (1 + (b / a)\<^sup>2) = sqrt (a * a + b * b) / \<bar>a\<bar>"
proof -
  have "1 + (b / a)\<^sup>2 = (a * a + b * b) / (a * a)"
    using assms by (simp add: power2_eq_square field_simps)
  then show ?thesis
    by (simp add: real_sqrt_divide)
qed

lemma atan2r_cos_sin:
  assumes "(a, b) \<noteq> (0, 0)"
  shows "cos (atan2r b a) = a / sqrt (a * a + b * b) \<and> sin (atan2r b a) = b / sqrt (a * a + b * b)"
proof -
  consider "0 < a" | "a < 0" | "a = 0" "0 < b" | "a = 0" "b < 0"
    using assms by force
  then show ?thesis
  proof cases
    case 1
    then show ?thesis
      by (simp add: atan2r_def cos_arctan sin_arctan sqrt_one_plus_ratio)
  next
    case 2
    then show ?thesis
      by (simp add: atan2r_def cos_arctan sin_arctan sqrt_one_plus_ratio)
  next
    case 3
    then show ?thesis
      by (simp add: atan2r_def)
  next
    case 4
    then show ?thesis
      by (simp add: atan2r_def)
  qed
qed

lemma magnitude_of_rotated:
  assumes "sp = NaN \<or> (\<exists>v. sp = Fin v \<and> 0 \<le> v)"
  shows "Math_sqrt (sp * Fin (cos t) * (sp * Fin (cos t)) + sp * Fin (sin t) * (sp * Fin (sin t))) = sp"
proof -
  have "v * cos t * (v * cos t) + v * sin t * (v * sin t) = v * v" for v :: real
  proof -
    have one: "sin t * sin t + cos t * cos t = 1"
      using sin_cos_squared_add [of t] by (simp add: power2_eq_square)
    have "v * cos t * (v * cos t) + v * sin t * (v * sin t)
            = v * v * (sin t * sin t + cos t * cos t)"
      by algebra
    also have "\<dots> = v * v"
      by (simp only: one mult_1_right)
    finally show ?thesis .
  qed
  then show ?thesis using assms by (auto simp: not_less)
qed

lemma newBody_velocity:
  assumes "x s = Fin sx" "y s = Fin sy" "mass s = Fin M" "(cx, cy) \<noteq> (sx, sy)"
  shows "vx (newBody s (Fin cx) (Fin cy) r1 r2 r3) =
           Math_sqrt (G * Fin M / Fin (radial_distance (cx - sx) (cy - sy))) * Fin (8 / 10)
             * Fin (cos (atan2r (cy - sy) (cx - sx) + pi / 2))"
    and "vy (newBody s (Fin cx) (Fin cy) r1 r2 r3) =
           Math_sqrt (G * Fin M / Fin (radial_distance (cx - sx) (cy - sy))) * Fin (8 / 10)
             * Fin (sin (atan2r (cy - sy) (cx - sx) + pi / 2))"
proof -
  have nn: "\<not> (cx - sx) * (cx - sx) + (cy - sy) * (cy - sy) < 0"
    by (simp add: not_less)
  show "vx (newBody s (Fin cx) (Fin cy) r1 r2 r3) =
           Math_sqrt (G * Fin M / Fin (radial_distance (cx - sx) (cy - sy))) * Fin (8 / 10)
             * Fin (cos (atan2r (cy - sy) (cx - sx) + pi / 2))"
    using nn by (simp add: newBody_def Let_def assms(1-3) radial_distance_def Math_PI_def)
  show "vy (newBody s (Fin cx) (Fin cy) r1 r2 r3) =
           Math_sqrt (G * Fin M / Fin (radial_distance (cx - sx) (cy - sy))) * Fin (8 / 10)
             * Fin (sin (atan2r (cy - sy) (cx - sx) + pi / 2))"
    using nn by (simp add: newBody_def Let_def assms(1-3) radial_distance_def Math_PI_def)
qed

lemma speed_cases:
  assumes "0 < d"
  shows "Math_sqrt (G * Fin M / Fin d) * Fin (8 / 10) = NaN
       \<or> (\<exists>v. Math_sqrt (G * Fin M / Fin d) * Fin (8 / 10) = Fin v \<and> 0 \<le> v)"
proof (cases "100 * M / d < 0")
  case True
  then show ?thesis using assms by (simp add: G_def)
next
  case False
  then have "Math_sqrt (G * Fin M / Fin d) * Fin (8 / 10) = Fin (sqrt (100 * M / d) * (8 / 10))"
    using assms by (simp add: G_def)
  moreover from False have "0 \<le> sqrt (100 * M / d) * (8 / 10)"
    by simp
  ultimately show ?thesis by blast
qed

lemma speed_nonneg:
  assumes "0 < d" "0 \<le> M"
  shows "Math_sqrt (G * Fin M / Fin d) * Fin (8 / 10) = Fin (orbit_speed M d)"
  using assms by (simp add: G_def orbit_speed_def not_less)

text \<open>
  C7. For a sun of finite mass \<open>M\<close> at a finite position and a click anywhere else, at
  distance \<open>d\<close>: the click appends the new body; its velocity is the speed
  \<open>sqrt(G * M / d) * 0.8\<close> times the unit vector at the angle \<open>atan2(dy, dx) + \<pi>/2\<close>, where
  \<open>atan2(dy, dx)\<close> is the direction of the radius; its magnitude is that speed; for
  \<open>M \<ge> 0\<close> it is the speed times \<open>(-dy / d, dx / d)\<close>; and it is the same for all
  random draws.
\<close>

theorem seeded_orbit:
  assumes "find isSun bs = Some s" and "x s = Fin sx" and "y s = Fin sy" and "mass s = Fin M"
    and "(cx, cy) \<noteq> (sx, sy)"
  shows "handleCanvasClick bs (Fin cx) (Fin cy) r1 r2 r3 = bs @ [newBody s (Fin cx) (Fin cy) r1 r2 r3]
    \<and> 0 < radial_distance (cx - sx) (cy - sy)
    \<and> cx - sx = radial_distance (cx - sx) (cy - sy) * cos (atan2r (cy - sy) (cx - sx))
    \<and> cy - sy = radial_distance (cx - sx) (cy - sy) * sin (atan2r (cy - sy) (cx - sx))
    \<and> vx (newBody s (Fin cx) (Fin cy) r1 r2 r3) =
        Math_sqrt (G * Fin M / Fin (radial_distance (cx - sx) (cy - sy))) * Fin (8 / 10)
          * Fin (cos (atan2r (cy - sy) (cx - sx) + pi / 2))
    \<and> vy (newBody s (Fin cx) (Fin cy) r1 r2 r3) =
        Math_sqrt (G * Fin M / Fin (radial_distance (cx - sx) (cy - sy))) * Fin (8 / 10)
          * Fin (sin (atan2r (cy - sy) (cx - sx) + pi / 2))
    \<and> Math_sqrt (vx (newBody s (Fin cx) (Fin cy) r1 r2 r3) * vx (newBody s (Fin cx) (Fin cy) r1 r2 r3)
               + vy (newBody s (Fin cx) (Fin cy) r1 r2 r3) * vy (newBody s (Fin cx) (Fin cy) r1 r2 r3))
        = Math_sqrt (G * Fin M / Fin (radial_distance (cx - sx) (cy - sy))) * Fin (8 / 10)
    \<and> (0 \<le> M \<longrightarrow>
         vx (newBody s (Fin cx) (Fin cy) r1 r2 r3) =
           Fin (orbit_speed M (radial_distance (cx - sx) (cy - sy))
                 * ((sy - cy) / radial_distance (cx - sx) (cy - sy)))
       \<and> vy (newBody s (Fin cx) (Fin cy) r1 r2 r3) =
           Fin (orbit_speed M (radial_distance (cx - sx) (cy - sy))
                 * ((cx - sx) / radial_distance (cx - sx) (cy - sy))))
    \<and> vx (newBody s (Fin cx) (Fin cy) r1 r2 r3) = vx (newBody s (Fin cx) (Fin cy) q1 q2 q3)
    \<and> vy (newBody s (Fin cx) (Fin cy) r1 r2 r3) = vy (newBody s (Fin cx) (Fin cy) q1 q2 q3)"
proof -
  let ?d = "radial_distance (cx - sx) (cy - sy)"
  let ?t = "atan2r (cy - sy) (cx - sx)"
  let ?sp = "Math_sqrt (G * Fin M / Fin ?d) * Fin (8 / 10)"
  have ne: "(cx - sx, cy - sy) \<noteq> (0, 0)" using assms(5) by auto
  have d: "0 < ?d"
    unfolding radial_distance_def by (rule sqrt_sum_squares_pos [OF ne])
  have cs: "cos ?t = (cx - sx) / ?d" "sin ?t = (cy - sy) / ?d"
    using atan2r_cos_sin [OF ne] by (simp_all add: radial_distance_def)
  have c1: "handleCanvasClick bs (Fin cx) (Fin cy) r1 r2 r3
              = bs @ [newBody s (Fin cx) (Fin cy) r1 r2 r3]"
    by (simp add: handleCanvasClick_def assms(1))
  have c3: "cx - sx = ?d * cos ?t" "cy - sy = ?d * sin ?t"
    using d by (simp_all add: cs)
  have rot: "cos (?t + pi / 2) = (sy - cy) / ?d" "sin (?t + pi / 2) = (cx - sx) / ?d"
  proof -
    have "- ((cy - sy) / ?d) = (sy - cy) / ?d"
      by (simp only: minus_divide_left minus_diff_eq)
    then show "cos (?t + pi / 2) = (sy - cy) / ?d"
      by (simp add: cos_add cs)
    show "sin (?t + pi / 2) = (cx - sx) / ?d"
      by (simp add: sin_add cs)
  qed
  note v = newBody_velocity [OF assms(2-5)]
  have c7: "Math_sqrt (vx (newBody s (Fin cx) (Fin cy) r1 r2 r3) * vx (newBody s (Fin cx) (Fin cy) r1 r2 r3)
               + vy (newBody s (Fin cx) (Fin cy) r1 r2 r3) * vy (newBody s (Fin cx) (Fin cy) r1 r2 r3))
        = ?sp"
    unfolding v by (rule magnitude_of_rotated [OF speed_cases [OF d]])
  have c8: "vx (newBody s (Fin cx) (Fin cy) r1 r2 r3) = Fin (orbit_speed M ?d * ((sy - cy) / ?d))
          \<and> vy (newBody s (Fin cx) (Fin cy) r1 r2 r3) = Fin (orbit_speed M ?d * ((cx - sx) / ?d))"
    if "0 \<le> M"
    unfolding v speed_nonneg [OF d that] rot
    by simp
  show ?thesis
    using c1 d c3 v [of r1 r2 r3] v [of q1 q2 q3] c7 c8 by simp
qed

theorem seeded_orbit_witness:
  "find isSun [sun (Fin 800) (Fin 600)] = Some (sun (Fin 800) (Fin 600))
 \<and> (500 :: real, 300 :: real) \<noteq> (400, 300)
 \<and> radial_distance (500 - 400) (300 - 300) = 100
 \<and> vx (newBody (sun (Fin 800) (Fin 600)) (Fin 500) (Fin 300) (Fin 0) (Fin 0) (Fin 0)) = Fin 0
 \<and> vy (newBody (sun (Fin 800) (Fin 600)) (Fin 500) (Fin 300) (Fin 0) (Fin 0) (Fin 0))
      = Fin (sqrt 1000 * (8 / 10))"
proof -
  have f: "find isSun [sun (Fin 800) (Fin 600)] = Some (sun (Fin 800) (Fin 600))"
    by (simp add: sun_def)
  have p: "x (sun (Fin 800) (Fin 600)) = Fin 400" "y (sun (Fin 800) (Fin 600)) = Fin 300"
    "mass (sun (Fin 800) (Fin 600)) = Fin 1000"
    by (simp_all add: sun_def)
  have ne: "(500 :: real, 300 :: real) \<noteq> (400, 300)"
    by simp
  have d: "radial_distance (500 - 400) (300 - 300) = 100"
    by (simp add: radial_distance_def sqrt_10000)
  have z: "(0::real) \<le> 1000"
    by simp
  from z seeded_orbit [OF f p ne, of "Fin 0" "Fin 0" "Fin 0" "Fin 0" "Fin 0" "Fin 0"]
  have "vx (newBody (sun (Fin 800) (Fin 600)) (Fin 500) (Fin 300) (Fin 0) (Fin 0) (Fin 0)) =
          Fin (orbit_speed 1000 (radial_distance (500 - 400) (300 - 300))
                * ((300 - 300) / radial_distance (500 - 400) (300 - 300)))
      \<and> vy (newBody (sun (Fin 800) (Fin 600)) (Fin 500) (Fin 300) (Fin 0) (Fin 0) (Fin 0)) =
          Fin (orbit_speed 1000 (radial_distance (500 - 400) (300 - 300))
                * ((500 - 400) / radial_distance (500 - 400) (300 - 300)))"
    by blast
  then show ?thesis
    unfolding d using f ne d by (simp add: orbit_speed_def)
qed

end
